theory Spec2Isabelle
  imports Main "HOL-Library.Word"
begin

section \<open>Addresses, memory and failures\<close>

text \<open>
  The bridge is C code working on objects in memory. Object addresses are modelled by
  \<open>ptr\<close>: the null pointer, the statically allocated list anchor \<open>sentinel\<close> of
  gcc-python-wrapper.c, the host runtime's statically allocated singletons, and heap
  objects \<open>Obj n\<close> handed out by the host allocator. Only heap objects are real proxies.
\<close>

datatype ptr = NULL | Sentinel | Py_None | Py_True | Py_False | Py_NotImplemented
  | is_Obj: Obj nat

text \<open>
  Type objects are objects too, so a type pointer is a \<open>ptr\<close>. A \<open>wrtp_marker\<close> is the
  address of a marking function; in a \<open>wrtp_mark\<close> slot, \<open>None\<close> is the null function
  pointer.
\<close>

type_synonym wrtp_marker = nat

text \<open>A \<open>tree\<close> is the address of a node owned by the compiler; \<open>0\<close> is the null tree.\<close>

type_synonym tree = "64 word"

text \<open>
  A failed \<open>assert\<close> aborts the process, and so does following a null pointer. Both are
  results of the model, so every abort of the source is a branch here. The assertion
  carries the text of its condition. The model is of a build in which assertions are
  compiled in.
\<close>

datatype error = Assertion_failed string | Null_dereference

text \<open>
  Memory is split by field: each field of \<open>struct PyGccWrapper\<close>, \<open>struct PyGccTree\<close>
  and \<open>PyGccWrapperTypeObject\<close> is a function from the address of the object to the
  value stored there. The remaining components are the file-level variables of the
  sources, the part of the compiler's memory that the sources read through the
  \<open>DECL_NAME\<close> and \<open>DECL_UID\<close> accessors, and the addresses the host allocator will
  hand out next (\<open>host_free\<close>; allocation fails when it is empty).
\<close>

record state =
  ob_refcnt :: "ptr \<Rightarrow> int"
  ob_type :: "ptr \<Rightarrow> ptr"
  wr_prev :: "ptr \<Rightarrow> ptr"
  wr_next :: "ptr \<Rightarrow> ptr"
  PyGccTree_t :: "ptr \<Rightarrow> tree"
  tp_name :: "ptr \<Rightarrow> string"
  tp_basicsize :: "ptr \<Rightarrow> nat"
  tp_base :: "ptr \<Rightarrow> ptr"
  wrtp_mark :: "ptr \<Rightarrow> wrtp_marker option"
  debug_gcc_python_wrapper :: bool
  ggc_force_collect :: bool
  tree_wrapper_cache :: "tree \<rightharpoonup> ptr"
  DECL_NAME :: "tree \<Rightarrow> tree"
  DECL_UID :: "tree \<Rightarrow> 32 word"
  host_free :: "nat list"

section \<open>The list of live wrappers (gcc-python-wrapper.c)\<close>

text \<open>
  The static initialiser of \<open>sentinel\<close>: both links point to the sentinel itself, the
  reference count is 1 and the type pointer is null (\<open>PyObject_HEAD_INIT(NULL)\<close>).
\<close>

definition sentinel_init :: "state \<Rightarrow> state" where
  "sentinel_init st =
     st\<lparr>ob_refcnt := (ob_refcnt st)(Sentinel := 1),
        ob_type := (ob_type st)(Sentinel := NULL),
        wr_prev := (wr_prev st)(Sentinel := Sentinel),
        wr_next := (wr_next st)(Sentinel := Sentinel)\<rparr>"

text \<open>
  The diagnostic \<open>printf\<close> of \<open>Py_TYPE(obj)->tp_name\<close>, made when
  \<open>debug_gcc_python_wrapper\<close> is set. Its output is not modelled; what is modelled is
  that it reads through \<open>obj\<close> and through the type pointer of \<open>obj\<close>.
\<close>

definition debug_print_type :: "state \<Rightarrow> ptr \<Rightarrow> bool" where
  "debug_print_type st obj \<longleftrightarrow>
     (debug_gcc_python_wrapper st \<longrightarrow> obj \<noteq> NULL \<and> ob_type st obj \<noteq> NULL)"

text \<open>
  \<open>gcc_python_wrapper_track\<close>: the four assertions on entry, the four stores in the order
  of the source (each one reads the memory left by the one before), and the two
  assertions on exit.
\<close>

definition gcc_python_wrapper_track :: "state \<Rightarrow> ptr \<Rightarrow> error + state" where
  "gcc_python_wrapper_track st obj =
     (if obj = NULL then Inl (Assertion_failed ''obj'')
      else if wr_next st Sentinel = NULL then Inl (Assertion_failed ''sentinel.wr_next'')
      else if wr_prev st Sentinel = NULL then Inl (Assertion_failed ''sentinel.wr_prev'')
      else if \<not> debug_print_type st obj then Inl Null_dereference
      else if wr_next st (wr_prev st Sentinel) \<noteq> Sentinel
        then Inl (Assertion_failed ''sentinel.wr_prev->wr_next == &sentinel'')
      else
        let s1 = st\<lparr>wr_next := (wr_next st)(wr_prev st Sentinel := obj)\<rparr>;
            s2 = s1\<lparr>wr_prev := (wr_prev s1)(obj := wr_prev s1 Sentinel)\<rparr>;
            s3 = s2\<lparr>wr_next := (wr_next s2)(obj := Sentinel)\<rparr>;
            s4 = s3\<lparr>wr_prev := (wr_prev s3)(Sentinel := obj)\<rparr>
        in if wr_prev s4 obj = NULL then Inl (Assertion_failed ''obj->wr_prev'')
           else if wr_next s4 obj = NULL then Inl (Assertion_failed ''obj->wr_next'')
           else Inr s4)"

text \<open>
  \<open>gcc_python_wrapper_untrack\<close>: the six assertions, then the four stores in the order
  of the source. The first two stores go through the links of \<open>obj\<close> itself.
\<close>

definition gcc_python_wrapper_untrack :: "state \<Rightarrow> ptr \<Rightarrow> error + state" where
  "gcc_python_wrapper_untrack st obj =
     (if \<not> debug_print_type st obj then Inl Null_dereference
      else if obj = NULL then Inl (Assertion_failed ''obj'')
      else if ob_refcnt st obj \<noteq> 0 then Inl (Assertion_failed ''Py_REFCNT(obj) == 0'')
      else if wr_next st Sentinel = NULL then Inl (Assertion_failed ''sentinel.wr_next'')
      else if wr_prev st Sentinel = NULL then Inl (Assertion_failed ''sentinel.wr_prev'')
      else if wr_prev st obj = NULL then Inl (Assertion_failed ''obj->wr_prev'')
      else if wr_next st obj = NULL then Inl (Assertion_failed ''obj->wr_next'')
      else
        let s1 = st\<lparr>wr_next := (wr_next st)(wr_prev st obj := wr_next st obj)\<rparr>;
            s2 = s1\<lparr>wr_prev := (wr_prev s1)(wr_next s1 obj := wr_prev s1 obj)\<rparr>;
            s3 = s2\<lparr>wr_prev := (wr_prev s2)(obj := NULL)\<rparr>;
            s4 = s3\<lparr>wr_next := (wr_next s3)(obj := NULL)\<rparr>
        in Inr s4)"

text \<open>
  \<open>tp_free\<close> belongs to the host runtime: it gives the memory of a heap object back to
  the host allocator.
\<close>

definition tp_free :: "state \<Rightarrow> ptr \<Rightarrow> state" where
  "tp_free st obj = (case obj of Obj n \<Rightarrow> st\<lparr>host_free := host_free st @ [n]\<rparr> | _ \<Rightarrow> st)"

text \<open>\<open>gcc_python_wrapper_dealloc\<close>, the \<open>tp_dealloc\<close> of every wrapper type.\<close>

definition gcc_python_wrapper_dealloc :: "state \<Rightarrow> ptr \<Rightarrow> error + state" where
  "gcc_python_wrapper_dealloc st obj =
     (if obj = NULL then Inl (Assertion_failed ''obj'')
      else if ob_refcnt st obj \<noteq> 0 then Inl (Assertion_failed ''Py_REFCNT(obj) == 0'')
      else if \<not> debug_print_type st obj then Inl Null_dereference
      else (case gcc_python_wrapper_untrack st obj of
              Inl e \<Rightarrow> Inl e
            | Inr st' \<Rightarrow> if ob_type st' obj = NULL then Inl Null_dereference
                         else Inr (tp_free st' obj)))"

text \<open>
  \<open>PyObject_New\<close> belongs to the host runtime: it takes the next free address, sets the
  type pointer and a reference count of 1, and leaves every other field as it was. It
  returns the null pointer when the allocator has nothing left.
\<close>

definition PyObject_New :: "state \<Rightarrow> ptr \<Rightarrow> ptr \<times> state" where
  "PyObject_New st tp =
     (case host_free st of
        [] \<Rightarrow> (NULL, st)
      | n # rest \<Rightarrow>
          (Obj n, st\<lparr>host_free := rest,
                     ob_type := (ob_type st)(Obj n := tp),
                     ob_refcnt := (ob_refcnt st)(Obj n := 1)\<rparr>))"

text \<open>\<open>_PyGccWrapper_New\<close>: allocate, then add to the list of live wrappers.\<close>

definition PyGccWrapper_New :: "state \<Rightarrow> ptr \<Rightarrow> error + ptr \<times> state" where
  "PyGccWrapper_New st typeobj =
     (if typeobj = NULL then Inl (Assertion_failed ''typeobj'')
      else case PyObject_New st typeobj of
        (obj, st1) \<Rightarrow>
          if obj = NULL then Inr (NULL, st1)
          else (case gcc_python_wrapper_track st1 obj of
                  Inl e \<Rightarrow> Inl e
                | Inr st2 \<Rightarrow> Inr (obj, st2)))"

subsection \<open>The mark-phase callback\<close>

text \<open>
  \<open>my_walker\<close> is the loop
  \<^verbatim>\<open>for (iter = sentinel.wr_next; iter != &sentinel; iter = iter->wr_next)\<close>.
  Each round reads the \<open>wrtp_mark\<close> slot of the type of \<open>iter\<close>, asserts that it is not
  null and calls it on \<open>iter\<close>. The marking functions belong to the wrapper types and are
  not part of these sources, so a call is recorded rather than run: the result of the
  walk is the list of calls \<open>(function, argument)\<close> in the order they were made. The
  diagnostic output made when \<open>debug_gcc_python_wrapper\<close> is set is not modelled. On
  memory that is not a well-formed list the loop may never reach the sentinel; not
  returning is the value \<open>None\<close>.
\<close>

partial_function (option) my_walker_loop ::
    "state \<Rightarrow> ptr \<Rightarrow> (wrtp_marker \<times> ptr) list \<Rightarrow> (error + (wrtp_marker \<times> ptr) list) option" where
  "my_walker_loop st iter calls =
     (if iter = Sentinel then Some (Inr calls)
      else if iter = NULL \<or> ob_type st iter = NULL then Some (Inl Null_dereference)
      else (case wrtp_mark st (ob_type st iter) of
              None \<Rightarrow> Some (Inl (Assertion_failed ''wrtp_mark''))
            | Some f \<Rightarrow> my_walker_loop st (wr_next st iter) (calls @ [(f, iter)])))"

definition my_walker :: "state \<Rightarrow> (error + (wrtp_marker \<times> ptr) list) option" where
  "my_walker st = my_walker_loop st (wr_next st Sentinel) []"

subsection \<open>Creation of subtypes\<close>

text \<open>
  \<open>gcc_python_wrapper_meta_tp_new\<close> is the \<open>tp_new\<close> of the metatype. It calls the host's
  \<open>PyType_Type.tp_new\<close>, which is not part of these sources and is a parameter here: it
  returns the address of the new type object, or the null pointer, and the memory it
  leaves. \<open>sizeof_PyGccWrapperTypeObject\<close> is a parameter as well. The type of the new
  type and its \<open>tp_base\<close> are read from the memory that \<open>PyType_Type.tp_new\<close> left.
\<close>

definition gcc_python_wrapper_meta_tp_new ::
    "(state \<Rightarrow> ptr \<Rightarrow> 'args \<Rightarrow> ptr \<times> state) \<Rightarrow> nat \<Rightarrow> state \<Rightarrow> ptr \<Rightarrow> 'args
      \<Rightarrow> error + ptr \<times> state" where
  "gcc_python_wrapper_meta_tp_new PyType_Type_tp_new sizeof_PyGccWrapperTypeObject st type args =
     (case PyType_Type_tp_new st type args of
        (new_type, st1) \<Rightarrow>
          if new_type = NULL then Inr (NULL, st1)
          else if ob_type st1 new_type = NULL then Inl Null_dereference
          else if \<not> sizeof_PyGccWrapperTypeObject \<le> tp_basicsize st1 (ob_type st1 new_type)
            then Inl (Assertion_failed
              ''Py_TYPE(new_type)->tp_basicsize >= sizeof(PyGccWrapperTypeObject)'')
          else if tp_base st1 new_type = NULL then Inl Null_dereference
          else Inr (new_type,
                    st1\<lparr>wrtp_mark := (wrtp_mark st1)
                           (new_type := wrtp_mark st1 (tp_base st1 new_type))\<rparr>))"

subsection \<open>Forcing a collection\<close>

text \<open>
  \<open>force_gcc_gc\<close> saves \<open>ggc_force_collect\<close>, sets it, calls the compiler's
  \<open>ggc_collect\<close> and writes the saved value back. \<open>ggc_collect\<close> is the compiler's own
  and is a parameter: it may change any memory, and it may abort (it runs the mark-phase
  callback, whose assertion can fail).
\<close>

definition force_gcc_gc :: "(state \<Rightarrow> error + state) \<Rightarrow> state \<Rightarrow> error + state" where
  "force_gcc_gc ggc_collect st =
     (let stored = ggc_force_collect st in
      case ggc_collect (st\<lparr>ggc_force_collect := True\<rparr>) of
        Inl e \<Rightarrow> Inl e
      | Inr st1 \<Rightarrow> Inr (st1\<lparr>ggc_force_collect := stored\<rparr>))"

definition Py_INCREF :: "state \<Rightarrow> ptr \<Rightarrow> state" where
  "Py_INCREF st obj = st\<lparr>ob_refcnt := (ob_refcnt st)(obj := ob_refcnt st obj + 1)\<rparr>"

definition gcc_python__force_garbage_collection ::
    "(state \<Rightarrow> error + state) \<Rightarrow> state \<Rightarrow> error + ptr \<times> state" where
  "gcc_python__force_garbage_collection ggc_collect st =
     (case force_gcc_gc ggc_collect st of
        Inl e \<Rightarrow> Inl e
      | Inr st1 \<Rightarrow> Inr (Py_None, Py_INCREF st1 Py_None))"

section \<open>Tree wrappers (the tree source file)\<close>

subsection \<open>Hashing and comparison\<close>

text \<open>
  \<open>gcc_Tree_hash\<close> is \<open>(long)self->t\<close>: the bits of the wrapped address, read as a
  \<open>long\<close>. Addresses and \<open>long\<close> are both 64 bits wide here.
\<close>

definition gcc_Tree_hash :: "state \<Rightarrow> ptr \<Rightarrow> 64 word" where
  "gcc_Tree_hash st self = PyGccTree_t st self"

text \<open>The host runtime's comparison operators, as the \<open>int\<close> passed to \<open>tp_richcompare\<close>.\<close>

definition Py_LT :: int where "Py_LT = 0"
definition Py_LE :: int where "Py_LE = 1"
definition Py_EQ :: int where "Py_EQ = 2"
definition Py_NE :: int where "Py_NE = 3"
definition Py_GT :: int where "Py_GT = 4"
definition Py_GE :: int where "Py_GE = 5"

text \<open>
  \<open>gcc_Tree_richcompare\<close>. The host's \<open>PyObject_TypeCheck(o, &gcc_TreeType)\<close> is the
  parameter \<open>is_tree\<close>: whether the object at \<open>o\<close> is an instance of the tree wrapper
  type or of a subtype of it. The result is a pointer to one of the host's singletons,
  with its reference count incremented.
\<close>

definition gcc_Tree_richcompare ::
    "(state \<Rightarrow> ptr \<Rightarrow> bool) \<Rightarrow> state \<Rightarrow> ptr \<Rightarrow> ptr \<Rightarrow> int \<Rightarrow> ptr \<times> state" where
  "gcc_Tree_richcompare is_tree st o1 o2 op =
     (let result_obj =
        (if \<not> is_tree st o1 then Py_NotImplemented
         else if \<not> is_tree st o2 then Py_NotImplemented
         else if op = Py_EQ
           then (if PyGccTree_t st o1 = PyGccTree_t st o2 then Py_True else Py_False)
         else if op = Py_NE
           then (if PyGccTree_t st o1 \<noteq> PyGccTree_t st o2 then Py_True else Py_False)
         else Py_NotImplemented)
      in (result_obj, Py_INCREF st result_obj))"

subsection \<open>The constructor-style rendering of declarations\<close>

text \<open>
  \<open>gcc_python_string_from_format\<close> is the host's \<open>printf\<close>-style string constructor.
  Of its directives the sources below use \<open>%s\<close> (a C string) and \<open>%u\<close> (an
  \<open>unsigned int\<close> in decimal); every other character of the format is copied. \<open>None\<close>
  is the null result.
\<close>

datatype fmt_arg = Str string | Uint "32 word"

fun decimal :: "nat \<Rightarrow> string" where
  "decimal n = (if n < 10 then [''0123456789'' ! n]
                else decimal (n div 10) @ [''0123456789'' ! (n mod 10)])"

declare decimal.simps [simp del]

fun gcc_python_string_from_format :: "string \<Rightarrow> fmt_arg list \<Rightarrow> string option" where
  "gcc_python_string_from_format [] args = Some []"
| "gcc_python_string_from_format [c] args = (if c = CHR ''%'' then None else Some [c])"
| "gcc_python_string_from_format (c # d # cs) args =
     (if c \<noteq> CHR ''%''
        then map_option ((#) c) (gcc_python_string_from_format (d # cs) args)
      else if d = CHR ''s''
        then (case args of
                Str s # rest \<Rightarrow> map_option ((@) s) (gcc_python_string_from_format cs rest)
              | _ \<Rightarrow> None)
      else if d = CHR ''u''
        then (case args of
                Uint u # rest \<Rightarrow>
                  map_option ((@) (decimal (unat u))) (gcc_python_string_from_format cs rest)
              | _ \<Rightarrow> None)
      else None)"

text \<open>
  \<open>gcc_Declaration_repr\<close>. \<open>gcc_Declaration_get_name\<close> is defined in another file and is
  a parameter: it returns the name of the declaration as a string, or fails (\<open>None\<close>).
  The result is the new string, or \<open>None\<close> for the null result.
\<close>

definition gcc_Declaration_repr ::
    "(state \<Rightarrow> ptr \<Rightarrow> string option) \<Rightarrow> state \<Rightarrow> ptr \<Rightarrow> string option" where
  "gcc_Declaration_repr gcc_Declaration_get_name st self =
     (if DECL_NAME st (PyGccTree_t st self) \<noteq> 0 then
        (case gcc_Declaration_get_name st self of
           None \<Rightarrow> None
         | Some name \<Rightarrow>
             gcc_python_string_from_format ''%s('%s')''
               [Str (tp_name st (ob_type st self)), Str name])
      else
        gcc_python_string_from_format ''%s(%u)''
          [Str (tp_name st (ob_type st self)), Uint (DECL_UID st (PyGccTree_t st self))])"

subsection \<open>Construction\<close>

text \<open>
  \<open>real_make_tree_wrapper\<close>. The type table
  \<open>gcc_python_autogenerated_tree_type_for_tree\<close> is generated code and is a parameter.
  The result is the pointer returned (null when the host allocator fails) and the
  memory left.
\<close>

definition real_make_tree_wrapper ::
    "(state \<Rightarrow> tree \<Rightarrow> ptr) \<Rightarrow> state \<Rightarrow> tree \<Rightarrow> error + ptr \<times> state" where
  "real_make_tree_wrapper type_for_tree st t =
     (if t = 0 then Inr (Py_None, Py_INCREF st Py_None)
      else
        let tp = type_for_tree st t in
        if tp = NULL then Inl (Assertion_failed ''tp'')
        else (case PyObject_New st tp of
                (tree_obj, st1) \<Rightarrow>
                  if tree_obj = NULL then Inr (NULL, st1)
                  else Inr (tree_obj, st1\<lparr>PyGccTree_t := (PyGccTree_t st1)(tree_obj := t)\<rparr>)))"

text \<open>
  Modelled from the spec: \<open>gcc_python_lazily_create_wrapper\<close>, the cached constructor
  that \<open>gcc_python_make_wrapper_tree\<close> calls, is defined in a file that is not among the
  sources. The specification of the Canonical Proxy Cache gives its contract. For the
  null identity it returns the host's "no value" object, not a proxy. Otherwise it looks
  the identity up in the cache: on a hit it returns the cached proxy, with one more
  reference; on a miss it constructs a new proxy, stores it under the identity and
  returns it; when construction fails the failure is returned and nothing is stored.
\<close>

definition gcc_python_lazily_create_wrapper ::
    "state \<Rightarrow> tree \<Rightarrow> (state \<Rightarrow> tree \<Rightarrow> error + ptr \<times> state) \<Rightarrow> error + ptr \<times> state" where
  "gcc_python_lazily_create_wrapper st ptr ctor =
     (if ptr = 0 then Inr (Py_None, Py_INCREF st Py_None)
      else (case tree_wrapper_cache st ptr of
              Some oldobj \<Rightarrow> Inr (oldobj, Py_INCREF st oldobj)
            | None \<Rightarrow>
                (case ctor st ptr of
                   Inl e \<Rightarrow> Inl e
                 | Inr (newobj, st1) \<Rightarrow>
                     if newobj = NULL then Inr (NULL, st1)
                     else Inr (newobj,
                               st1\<lparr>tree_wrapper_cache :=
                                     (tree_wrapper_cache st1)(ptr \<mapsto> newobj)\<rparr>))))"

text \<open>\<open>gcc_python_make_wrapper_tree\<close>, as in the source.\<close>

definition gcc_python_make_wrapper_tree ::
    "(state \<Rightarrow> tree \<Rightarrow> ptr) \<Rightarrow> state \<Rightarrow> tree \<Rightarrow> error + ptr \<times> state" where
  "gcc_python_make_wrapper_tree type_for_tree st t =
     gcc_python_lazily_create_wrapper st t (real_make_tree_wrapper type_for_tree)"

text \<open>
  Repeated construction: one call of \<open>gcc_python_make_wrapper_tree\<close> for each tree of a
  list, in order, each on the memory that the call before left, as in the loops of
  \<open>VEC_tree_as_PyList\<close> and \<open>gcc_tree_list_from_chain\<close>. The pointers returned are
  collected. No wrapper is destroyed between the calls.
\<close>

fun make_wrapper_trees ::
    "(state \<Rightarrow> tree \<Rightarrow> ptr) \<Rightarrow> state \<Rightarrow> tree list \<Rightarrow> error + ptr list \<times> state" where
  "make_wrapper_trees type_for_tree st [] = Inr ([], st)"
| "make_wrapper_trees type_for_tree st (t # ts) =
     (case gcc_python_make_wrapper_tree type_for_tree st t of
        Inl e \<Rightarrow> Inl e
      | Inr (p, st1) \<Rightarrow>
          (case make_wrapper_trees type_for_tree st1 ts of
             Inl e \<Rightarrow> Inl e
           | Inr (ps, st2) \<Rightarrow> Inr (p # ps, st2)))"

section \<open>Well-formed memory\<close>

text \<open>
  \<open>chain st p xs q\<close>: following \<open>wr_next\<close> from \<open>p\<close> visits the objects \<open>xs\<close> in order and
  then reaches \<open>q\<close>, and following \<open>wr_prev\<close> from \<open>q\<close> visits them in reverse order and
  then reaches \<open>p\<close>.
\<close>

fun chain :: "state \<Rightarrow> ptr \<Rightarrow> ptr list \<Rightarrow> ptr \<Rightarrow> bool" where
  "chain st p [] q \<longleftrightarrow> wr_next st p = q \<and> wr_prev st q = p"
| "chain st p (x # xs) q \<longleftrightarrow> wr_next st p = x \<and> wr_prev st x = p \<and> chain st x xs q"

text \<open>
  \<open>live_list st xs\<close>: the memory \<open>st\<close> holds a circular doubly-linked list that starts and
  ends at the sentinel and whose members, from head to tail, are the heap objects \<open>xs\<close>,
  each of them once.
\<close>

definition live_list :: "state \<Rightarrow> ptr list \<Rightarrow> bool" where
  "live_list st xs \<longleftrightarrow> distinct xs \<and> list_all is_Obj xs \<and> chain st Sentinel xs Sentinel"

text \<open>\<open>mark_installed st p\<close>: the type of \<open>p\<close> is not null and has a marking function.\<close>

definition mark_installed :: "state \<Rightarrow> ptr \<Rightarrow> bool" where
  "mark_installed st p \<longleftrightarrow> ob_type st p \<noteq> NULL \<and> wrtp_mark st (ob_type st p) \<noteq> None"

text \<open>
  Memory at program start: static storage is zero, and \<open>sentinel\<close> has its initialiser.
\<close>

definition zeroed :: state where
  "zeroed = \<lparr>ob_refcnt = (\<lambda>_. 0), ob_type = (\<lambda>_. NULL), wr_prev = (\<lambda>_. NULL),
             wr_next = (\<lambda>_. NULL), PyGccTree_t = (\<lambda>_. 0), tp_name = (\<lambda>_. []),
             tp_basicsize = (\<lambda>_. 0), tp_base = (\<lambda>_. NULL), wrtp_mark = (\<lambda>_. None),
             debug_gcc_python_wrapper = False, ggc_force_collect = False,
             tree_wrapper_cache = Map.empty, DECL_NAME = (\<lambda>_. 0), DECL_UID = (\<lambda>_. 0),
             host_free = []\<rparr>"

definition startup :: state where
  "startup = sentinel_init zeroed"

text \<open>
  An example memory: two live wrappers, \<open>Obj 1\<close> of type \<open>Obj 10\<close> and \<open>Obj 2\<close> of type
  \<open>Obj 11\<close>, with marking functions at the addresses 7 and 8.
\<close>

definition two_wrappers :: state where
  "two_wrappers =
     startup\<lparr>wr_next := (wr_next startup)(Sentinel := Obj 1, Obj 1 := Obj 2, Obj 2 := Sentinel),
             wr_prev := (wr_prev startup)(Sentinel := Obj 2, Obj 2 := Obj 1, Obj 1 := Sentinel),
             ob_type := (ob_type startup)(Obj 1 := Obj 10, Obj 2 := Obj 11),
             wrtp_mark := (wrtp_mark startup)(Obj 10 := Some 7, Obj 11 := Some 8)\<rparr>"

text \<open>
  Example memories for the tree wrappers. In \<open>anonymous_decl\<close> the wrapper \<open>Obj 1\<close>, of a
  type named \<open>gcc.VarDecl\<close>, wraps a declaration with uid 42 and no name; in
  \<open>named_decl\<close> the same declaration has a name. In \<open>three_trees\<close> the wrappers \<open>Obj 1\<close>
  and \<open>Obj 2\<close> wrap the same node and \<open>Obj 3\<close> wraps another one.
\<close>

definition anonymous_decl :: state where
  "anonymous_decl =
     startup\<lparr>ob_type := (ob_type startup)(Obj 1 := Obj 10),
             tp_name := (tp_name startup)(Obj 10 := ''gcc.VarDecl''),
             PyGccTree_t := (PyGccTree_t startup)(Obj 1 := 4096),
             DECL_UID := (DECL_UID startup)(4096 := 42)\<rparr>"

definition named_decl :: state where
  "named_decl = anonymous_decl\<lparr>DECL_NAME := (DECL_NAME anonymous_decl)(4096 := 8192)\<rparr>"

definition three_trees :: state where
  "three_trees =
     startup\<lparr>PyGccTree_t := (PyGccTree_t startup)(Obj 1 := 4096, Obj 2 := 4096, Obj 3 := 8192)\<rparr>"

text \<open>
  A stand-in for the host's \<open>PyType_Type.tp_new\<close>, for the examples: the arguments are
  the name and the declared parent of the new type. It allocates the type object, whose
  memory the host fills with zeros before it sets the name, the parent and the size, so
  the \<open>wrtp_mark\<close> slot of the new type is null when it returns.
\<close>

definition host_type_new :: "state \<Rightarrow> ptr \<Rightarrow> string \<times> ptr \<Rightarrow> ptr \<times> state" where
  "host_type_new st type args =
     (case PyObject_New st type of
        (new_type, st1) \<Rightarrow>
          if new_type = NULL then (NULL, st1)
          else (new_type,
                st1\<lparr>tp_name := (tp_name st1)(new_type := fst args),
                    tp_base := (tp_base st1)(new_type := snd args),
                    tp_basicsize := (tp_basicsize st1)(new_type := tp_basicsize st1 (snd args)),
                    wrtp_mark := (wrtp_mark st1)(new_type := None)\<rparr>))"

text \<open>
  Example memories for subtypes. In \<open>wrapper_types\<close> the metatype is at \<open>Obj 0\<close>, the
  type at \<open>Obj 10\<close> has the marking function at address 7, the type at \<open>Obj 11\<close> has
  none, and the host allocator has one address left. \<open>one_instance st\<close> is \<open>st\<close> with one
  live wrapper, \<open>Obj 30\<close>, whose type is at \<open>Obj 20\<close>.
\<close>

definition wrapper_types :: state where
  "wrapper_types =
     startup\<lparr>ob_type := (ob_type startup)(Obj 10 := Obj 0, Obj 11 := Obj 0),
             tp_name := (tp_name startup)(Obj 0 := ''gcc.WrapperMeta'',
                          Obj 10 := ''gcc.GimplePass'', Obj 11 := ''gcc.Unmarked''),
             tp_basicsize := (tp_basicsize startup)(Obj 0 := 100, Obj 10 := 40, Obj 11 := 40),
             wrtp_mark := (wrtp_mark startup)(Obj 10 := Some 7),
             host_free := [20]\<rparr>"

definition one_instance :: "state \<Rightarrow> state" where
  "one_instance st =
     st\<lparr>wr_next := (wr_next st)(Sentinel := Obj 30, Obj 30 := Sentinel),
        wr_prev := (wr_prev st)(Sentinel := Obj 30, Obj 30 := Sentinel),
        ob_type := (ob_type st)(Obj 30 := Obj 20)\<rparr>"

text \<open>An example memory in which the host allocator has two addresses left.\<close>

definition two_free :: state where
  "two_free = startup\<lparr>host_free := [1, 2]\<rparr>"

section \<open>Properties of the list of live wrappers\<close>

subsection \<open>Chains\<close>

lemma chain_append:
  "chain st p (xs @ y # ys) q \<longleftrightarrow> chain st p xs y \<and> chain st y ys q"
  by (induction xs arbitrary: p) auto

lemma chain_frame:
  assumes "chain st p xs q"
    and "\<forall>x \<in> set (p # xs). wr_next st' x = wr_next st x"
    and "\<forall>x \<in> set (xs @ [q]). wr_prev st' x = wr_prev st x"
  shows "chain st' p xs q"
  using assms by (induction xs arbitrary: p) auto

lemma chain_tail:
  "chain st p xs q \<Longrightarrow> wr_prev st q = last (p # xs)"
  by (induction xs arbitrary: p) auto

lemma chain_head:
  "chain st p xs q \<Longrightarrow> wr_next st p = hd (xs @ [q])"
  by (cases xs) auto

lemma chain_last_next:
  "chain st p xs q \<Longrightarrow> wr_next st (last (p # xs)) = q"
  by (induction xs arbitrary: p) auto

lemma chain_unique:
  "chain st p xs q \<Longrightarrow> chain st p ys q \<Longrightarrow> q \<notin> set xs \<Longrightarrow> q \<notin> set ys \<Longrightarrow> xs = ys"
proof (induction xs arbitrary: p ys)
  case Nil
  then show ?case by (cases ys) auto
next
  case (Cons x xs)
  then show ?case by (cases ys) auto
qed

lemma in_list_not_null:
  "list_all is_Obj xs \<Longrightarrow> is_Obj p \<or> p = Sentinel \<Longrightarrow> last (p # xs) \<noteq> NULL \<and> hd (xs @ [p]) \<noteq> NULL"
  by (induction xs arbitrary: p) auto

lemma track_chain:
  assumes c: "chain st Sentinel xs Sentinel" and d: "distinct xs" and o: "obj \<notin> set xs"
    and s: "Sentinel \<notin> set xs" and os: "obj \<noteq> Sentinel"
    and n: "wr_next st' = (wr_next st)(wr_prev st Sentinel := obj, obj := Sentinel)"
    and p: "wr_prev st' = (wr_prev st)(obj := wr_prev st Sentinel, Sentinel := obj)"
  shows "chain st' Sentinel (xs @ [obj]) Sentinel"
proof (cases xs rule: rev_cases)
  case Nil
  with c os n p show ?thesis by simp
next
  case (snoc ys tl)
  with c have c1: "chain st Sentinel ys tl" and c2: "chain st tl [] Sentinel"
    by (simp_all add: chain_append)
  from c2 have t: "wr_prev st Sentinel = tl" by simp
  have "chain st' Sentinel ys tl"
    using snoc d o s os t n p by (intro chain_frame[OF c1]) auto
  moreover have "chain st' tl [obj] Sentinel"
    using snoc d o s os t n p by auto
  ultimately show ?thesis using snoc by (simp add: chain_append)
qed

lemma untrack_chain:
  assumes "chain st p (as @ obj # bs) q"
    and "distinct (p # as @ obj # bs)" and "q \<notin> set (as @ obj # bs)"
    and "wr_next st' = (wr_next st)(wr_prev st obj := wr_next st obj, obj := NULL)"
    and "wr_prev st' = (wr_prev st)(wr_next st obj := wr_prev st obj, obj := NULL)"
  shows "chain st' p (as @ bs) q"
  using assms
proof (induction as arbitrary: p)
  case Nil
  then have po: "wr_next st p = obj" "wr_prev st obj = p" and c: "chain st obj bs q"
    by simp_all
  show ?case
  proof (cases bs)
    case Nil
    with c po Nil.prems show ?thesis by auto
  next
    case (Cons b bs')
    with c have b: "wr_next st obj = b" "wr_prev st b = obj" and c': "chain st b bs' q"
      by simp_all
    have "chain st' b bs' q"
      using Cons Nil.prems po b by (intro chain_frame[OF c']) auto
    with Cons Nil.prems po b show ?thesis by auto
  qed
next
  case (Cons a as)
  then have pa: "wr_next st p = a" "wr_prev st a = p"
    and c: "chain st a (as @ obj # bs) q" by simp_all
  have ih: "chain st' a (as @ bs) q"
    using Cons.prems c by (intro Cons.IH) auto
  from c have "chain st a as obj" "chain st obj bs q" by (simp_all add: chain_append)
  then have "wr_prev st obj = last (a # as)" "wr_next st obj = hd (bs @ [q])"
    by (simp_all only: chain_tail chain_head)
  moreover have "last (a # as) \<in> set (a # as)" by (rule last_in_set) simp
  moreover have "hd (bs @ [q]) \<in> set (bs @ [q])" by (rule hd_in_set) simp
  ultimately have "wr_next st' p = a" "wr_prev st' a = p"
    using Cons.prems pa by auto
  with ih show ?case by simp
qed

subsection \<open>Tracking and untracking\<close>

lemma track_result:
  assumes "obj \<noteq> NULL" "wr_next st Sentinel \<noteq> NULL" "wr_prev st Sentinel \<noteq> NULL"
    "debug_print_type st obj" "wr_next st (wr_prev st Sentinel) = Sentinel"
  shows "gcc_python_wrapper_track st obj =
     Inr (st\<lparr>wr_next := (wr_next st)(wr_prev st Sentinel := obj, obj := Sentinel),
       wr_prev := (wr_prev st)(obj := wr_prev st Sentinel, Sentinel := obj)\<rparr>)"
  using assms 
  by (simp add: gcc_python_wrapper_track_def Let_def)

lemma untrack_result:
  assumes "obj \<noteq> NULL" "ob_refcnt st obj = 0" "wr_next st Sentinel \<noteq> NULL"
    "wr_prev st Sentinel \<noteq> NULL" "wr_prev st obj \<noteq> NULL" "wr_next st obj \<noteq> NULL"
    "debug_print_type st obj" "wr_prev st obj \<noteq> obj"
  shows "gcc_python_wrapper_untrack st obj =
     Inr (st\<lparr>wr_next := (wr_next st)(wr_prev st obj := wr_next st obj, obj := NULL),
       wr_prev := (wr_prev st)(wr_next st obj := wr_prev st obj, obj := NULL)\<rparr>)"
  using assms 
  by (simp add: gcc_python_wrapper_untrack_def Let_def)

lemma live_list_links:
  assumes "live_list st xs"
  shows "wr_next st Sentinel \<noteq> NULL" "wr_prev st Sentinel \<noteq> NULL"
    "wr_next st (wr_prev st Sentinel) = Sentinel"
proof -
  from assms have c: "chain st Sentinel xs Sentinel" and a: "list_all is_Obj xs"
    by (simp_all add: live_list_def)
  from in_list_not_null[OF a, of Sentinel] chain_tail[OF c] chain_head[OF c]
  show "wr_next st Sentinel \<noteq> NULL" "wr_prev st Sentinel \<noteq> NULL" by simp_all
  from chain_tail[OF c] chain_last_next[OF c]
  show "wr_next st (wr_prev st Sentinel) = Sentinel" by simp
qed

lemma live_list_track:
  assumes "live_list st xs" "is_Obj obj" "obj \<notin> set xs" "debug_print_type st obj"
  shows "\<exists>st'. gcc_python_wrapper_track st obj = Inr st' \<and> live_list st' (xs @ [obj])
            \<and> wr_next st' obj = Sentinel \<and> wr_prev st' Sentinel = obj"
proof -
  from assms have c: "chain st Sentinel xs Sentinel" and d: "distinct xs"
    and a: "list_all is_Obj xs" by (simp_all add: live_list_def)
  from a have s: "Sentinel \<notin> set xs" by (auto simp: list_all_iff)
  from assms(2) have o: "obj \<noteq> NULL" "obj \<noteq> Sentinel" by auto
  define st' where "st' = st\<lparr>wr_next := (wr_next st)(wr_prev st Sentinel := obj, obj := Sentinel),
       wr_prev := (wr_prev st)(obj := wr_prev st Sentinel, Sentinel := obj)\<rparr>"
  have r: "gcc_python_wrapper_track st obj = Inr st'"
    unfolding st'_def using o(1) live_list_links[OF assms(1)] assms(4)
    by (intro track_result) 
  have "chain st' Sentinel (xs @ [obj]) Sentinel"
    using c d assms(3) s o(2) by (rule track_chain) (simp_all add: st'_def)
  with d a assms(2,3) have "live_list st' (xs @ [obj])" by (simp add: live_list_def)
  moreover have "wr_next st' obj = Sentinel" "wr_prev st' Sentinel = obj"
    using o by (simp_all add: st'_def)
  ultimately show ?thesis using r by blast
qed

lemma live_list_untrack:
  assumes "live_list st xs" "obj \<in> set xs" "ob_refcnt st obj = 0" "debug_print_type st obj"
  shows "\<exists>st'. gcc_python_wrapper_untrack st obj = Inr st' \<and> live_list st' (remove1 obj xs)
            \<and> wr_prev st' obj = NULL \<and> wr_next st' obj = NULL"
proof -
  from assms have c: "chain st Sentinel xs Sentinel" and d: "distinct xs"
    and a: "list_all is_Obj xs" by (simp_all add: live_list_def)
  from a have s: "Sentinel \<notin> set xs" by (auto simp: list_all_iff)
  from assms(2) obtain as bs where xs: "xs = as @ obj # bs" by (auto simp: in_set_conv_decomp)
  from assms(2) a have o: "obj \<noteq> NULL" by (auto simp: list_all_iff)
  from c xs have c1: "chain st Sentinel as obj" and c2: "chain st obj bs Sentinel"
    by (simp_all add: chain_append)
  from a xs have a1: "list_all is_Obj as" and a2: "list_all is_Obj bs" by simp_all
  have p: "wr_prev st obj = last (Sentinel # as)" by (rule chain_tail[OF c1])
  have n: "wr_next st obj = hd (bs @ [Sentinel])" by (rule chain_head[OF c2])
  have pn: "wr_prev st obj \<noteq> NULL" using in_list_not_null[OF a1, of Sentinel] p by simp
  have nn: "wr_next st obj \<noteq> NULL" using in_list_not_null[OF a2, of Sentinel] n by simp
  have "last (Sentinel # as) \<in> set (Sentinel # as)" by (rule last_in_set) simp
  with p d xs assms(2) s have po: "wr_prev st obj \<noteq> obj" by auto
  define st' where "st' = st\<lparr>wr_next := (wr_next st)(wr_prev st obj := wr_next st obj, obj := NULL),
       wr_prev := (wr_prev st)(wr_next st obj := wr_prev st obj, obj := NULL)\<rparr>"
  have r: "gcc_python_wrapper_untrack st obj = Inr st'"
    unfolding st'_def using o assms(3) live_list_links(1,2)[OF assms(1)] pn nn assms(4) po
    by (intro untrack_result)
  have "chain st' Sentinel (as @ bs) Sentinel"
  proof (rule untrack_chain[where st=st and obj=obj])
    show "chain st Sentinel (as @ obj # bs) Sentinel" using c xs by simp
    show "distinct (Sentinel # as @ obj # bs)" using d s xs by simp
    show "Sentinel \<notin> set (as @ obj # bs)" using s xs by simp
  qed (simp_all add: st'_def)
  moreover have "remove1 obj xs = as @ bs" using d xs by (simp add: remove1_append)
  ultimately have "live_list st' (remove1 obj xs)" using d a xs by (simp add: live_list_def)
  moreover have "wr_prev st' obj = NULL" "wr_next st' obj = NULL" by (simp_all add: st'_def)
  ultimately show ?thesis using r by blast
qed

subsection \<open>The walk\<close>

lemma walker_loop_chain:
  assumes "chain st p xs Sentinel" "list_all is_Obj xs" "list_all (mark_installed st) xs"
  shows "my_walker_loop st (wr_next st p) calls =
           Some (Inr (calls @ map (\<lambda>x. (the (wrtp_mark st (ob_type st x)), x)) xs))"
  using assms
proof (induction xs arbitrary: p calls)
  case Nil
  then show ?case by (subst my_walker_loop.simps) simp
next
  case (Cons x xs)
  from Cons.prems have x: "wr_next st p = x" "is_Obj x" and m: "mark_installed st x"
    and c: "chain st x xs Sentinel" and r: "list_all is_Obj xs" "list_all (mark_installed st) xs"
    by simp_all
  from m obtain f where t: "ob_type st x \<noteq> NULL" and f: "wrtp_mark st (ob_type st x) = Some f"
    by (auto simp: mark_installed_def)
  from x(2) have nx: "x \<noteq> Sentinel" "x \<noteq> NULL" by auto
  have "my_walker_loop st x calls = my_walker_loop st (wr_next st x) (calls @ [(f, x)])"
    using nx t f by (subst my_walker_loop.simps) simp
  also have "\<dots> = Some (Inr ((calls @ [(f, x)]) @ map (\<lambda>x. (the (wrtp_mark st (ob_type st x)), x)) xs))"
    using c r by (rule Cons.IH)
  finally show ?case using x(1) f by simp
qed

lemma walker_loop_unmarked:
  assumes "chain st p xs Sentinel" "list_all is_Obj xs" "list_all (\<lambda>x. ob_type st x \<noteq> NULL) xs"
    "\<not> list_all (mark_installed st) xs"
  shows "my_walker_loop st (wr_next st p) calls = Some (Inl (Assertion_failed ''wrtp_mark''))"
  using assms
proof (induction xs arbitrary: p calls)
  case Nil
  then show ?case by simp
next
  case (Cons x xs)
  from Cons.prems have x: "wr_next st p = x" "is_Obj x" "ob_type st x \<noteq> NULL"
    and c: "chain st x xs Sentinel" and r: "list_all is_Obj xs" "list_all (\<lambda>x. ob_type st x \<noteq> NULL) xs"
    by simp_all
  from x(2) have nx: "x \<noteq> Sentinel" "x \<noteq> NULL" by auto
  show ?case
  proof (cases "wrtp_mark st (ob_type st x)")
    case None
    with nx x show ?thesis by (subst my_walker_loop.simps) simp
  next
    case (Some f)
    with x(3) have "mark_installed st x" by (simp add: mark_installed_def)
    with Cons.prems(4) have "\<not> list_all (mark_installed st) xs" by simp
    with c r have "my_walker_loop st (wr_next st x) (calls @ [(f, x)]) = Some (Inl (Assertion_failed ''wrtp_mark''))"
      by (rule Cons.IH)
    with nx x Some show ?thesis by (subst my_walker_loop.simps) simp
  qed
qed

lemma live_list_unique:
  assumes "live_list st xs" "live_list st ys"
  shows "xs = ys"
proof -
  from assms have "Sentinel \<notin> set xs" "Sentinel \<notin> set ys"
    by (auto simp: live_list_def list_all_iff)
  with assms show ?thesis by (auto simp: live_list_def intro: chain_unique)
qed

lemma live_list_startup: "live_list (sentinel_init st0) []"
  by (simp add: live_list_def sentinel_init_def)

lemma live_list_two_wrappers: "live_list two_wrappers [Obj 1, Obj 2]"
  by (simp add: live_list_def two_wrappers_def startup_def sentinel_init_def zeroed_def)

lemma debug_off_two_wrappers: "debug_print_type two_wrappers p"
  by (simp add: debug_print_type_def two_wrappers_def startup_def sentinel_init_def zeroed_def)

section \<open>The claims about the list of live wrappers\<close>

text \<open>
  C5. The list of live wrappers is a circular doubly-linked list anchored at the
  sentinel, which is not a heap object and so never a wrapper. At program start the list
  is empty. The members of the list are determined by the memory. Tracking a heap object
  that is not in the list succeeds and puts it at the tail, immediately before the
  sentinel; untracking a member whose reference count is zero succeeds, removes exactly
  that member and clears its links. Both leave a circular list again, so an object is a
  member exactly from the time it is tracked to the time it is untracked.
\<close>

theorem tracker_list_invariant:
  "live_list (sentinel_init st0) [] \<and>
   (live_list st xs \<and> live_list st ys \<longrightarrow> xs = ys) \<and>
   (live_list st xs \<and> is_Obj obj \<and> obj \<notin> set xs \<and> debug_print_type st obj \<longrightarrow>
      (\<exists>st'. gcc_python_wrapper_track st obj = Inr st' \<and> live_list st' (xs @ [obj])
            \<and> wr_next st' obj = Sentinel \<and> wr_prev st' Sentinel = obj)) \<and>
   (live_list st xs \<and> obj \<in> set xs \<and> ob_refcnt st obj = 0 \<and> debug_print_type st obj \<longrightarrow>
      (\<exists>st'. gcc_python_wrapper_untrack st obj = Inr st' \<and> live_list st' (remove1 obj xs)
            \<and> wr_prev st' obj = NULL \<and> wr_next st' obj = NULL))"
  using live_list_startup live_list_unique live_list_track live_list_untrack by blast

theorem tracker_list_invariant_witness:
  "live_list two_wrappers [Obj 1, Obj 2] \<and>
   (\<exists>st'. gcc_python_wrapper_track two_wrappers (Obj 3) = Inr st'
         \<and> live_list st' [Obj 1, Obj 2, Obj 3]
         \<and> wr_next st' (Obj 3) = Sentinel \<and> wr_prev st' Sentinel = Obj 3) \<and>
   (\<exists>st'. gcc_python_wrapper_untrack two_wrappers (Obj 1) = Inr st'
         \<and> live_list st' [Obj 2]
         \<and> wr_prev st' (Obj 1) = NULL \<and> wr_next st' (Obj 1) = NULL)"
proof -
  have r: "ob_refcnt two_wrappers (Obj 1) = 0"
    by (simp add: two_wrappers_def startup_def sentinel_init_def zeroed_def)
  show ?thesis
    using tracker_list_invariant [of zeroed two_wrappers "[Obj 1, Obj 2]" "[Obj 1, Obj 2]" "Obj 3"]
      tracker_list_invariant [of zeroed two_wrappers "[Obj 1, Obj 2]" "[Obj 1, Obj 2]" "Obj 1"]
      live_list_two_wrappers debug_off_two_wrappers r
    by simp
qed

text \<open>
  C6. \<open>gcc_python_wrapper_untrack\<close> requires the reference count of the wrapper to be
  zero. Called on a wrapper whose reference count is not zero, it stops at the assertion
  \<open>Py_REFCNT(obj) == 0\<close>, which comes before every store to the list, and so does
  \<open>gcc_python_wrapper_dealloc\<close>: the process aborts and no link has been changed.
\<close>

theorem untrack_live_wrapper_asserts:
  assumes "obj \<noteq> NULL" and "debug_print_type st obj" and "ob_refcnt st obj \<noteq> 0"
  shows "gcc_python_wrapper_untrack st obj = Inl (Assertion_failed ''Py_REFCNT(obj) == 0'')
       \<and> gcc_python_wrapper_dealloc st obj = Inl (Assertion_failed ''Py_REFCNT(obj) == 0'')"
  using assms
  by (simp add: gcc_python_wrapper_untrack_def gcc_python_wrapper_dealloc_def)

theorem untrack_live_wrapper_asserts_witness:
  "gcc_python_wrapper_untrack (two_wrappers\<lparr>ob_refcnt := (\<lambda>_. 1)\<rparr>) (Obj 1)
     = Inl (Assertion_failed ''Py_REFCNT(obj) == 0'')
   \<and> gcc_python_wrapper_dealloc (two_wrappers\<lparr>ob_refcnt := (\<lambda>_. 1)\<rparr>) (Obj 1)
     = Inl (Assertion_failed ''Py_REFCNT(obj) == 0'')"
  using untrack_live_wrapper_asserts [of "Obj 1" "two_wrappers\<lparr>ob_refcnt := (\<lambda>_. 1)\<rparr>"]
  by (simp add: debug_print_type_def two_wrappers_def startup_def sentinel_init_def zeroed_def)

text \<open>
  C1. When the list of live wrappers holds \<open>xs\<close> from head to tail and the type of every
  member has a marking function, \<open>my_walker\<close> returns, and the calls it made are, in
  order, one call for each member of \<open>xs\<close>: the marking function stored in the type of
  the member, applied to the member. No member is skipped, and the sentinel is not among
  the arguments.
\<close>

theorem my_walker_marks_every_live_wrapper:
  assumes "live_list st xs" and "list_all (mark_installed st) xs"
  shows "my_walker st = Some (Inr (map (\<lambda>p. (the (wrtp_mark st (ob_type st p)), p)) xs))
       \<and> Sentinel \<notin> set xs"
proof -
  from assms(1) have c: "chain st Sentinel xs Sentinel" and a: "list_all is_Obj xs"
    by (simp_all add: live_list_def)
  from a have "Sentinel \<notin> set xs" by (auto simp: list_all_iff)
  then show ?thesis
    using walker_loop_chain[OF c a assms(2), of "[]"] by (simp add: my_walker_def)
qed

theorem my_walker_marks_every_live_wrapper_witness:
  "live_list two_wrappers [Obj 1, Obj 2] \<and> list_all (mark_installed two_wrappers) [Obj 1, Obj 2]
   \<and> my_walker two_wrappers = Some (Inr [(7, Obj 1), (8, Obj 2)])"
proof -
  have m: "list_all (mark_installed two_wrappers) [Obj 1, Obj 2]"
    by (simp add: mark_installed_def two_wrappers_def startup_def sentinel_init_def zeroed_def)
  have e: "map (\<lambda>p. (the (wrtp_mark two_wrappers (ob_type two_wrappers p)), p)) [Obj 1, Obj 2]
      = [(7, Obj 1), (8, Obj 2)]"
    by (simp add: two_wrappers_def startup_def sentinel_init_def zeroed_def)
  show ?thesis
    using my_walker_marks_every_live_wrapper [OF live_list_two_wrappers m] m
      live_list_two_wrappers e
    by simp
qed


section \<open>The claims about tree wrappers\<close>

lemma decimal_digits: "set (decimal n) \<subseteq> set ''0123456789''"
proof (induction n rule: decimal.induct)
  case (1 n)
  show ?case
  proof (cases "n < 10")
    case True
    then have "''0123456789'' ! n \<in> set ''0123456789''" by (intro nth_mem) simp
    with True show ?thesis by (subst decimal.simps) simp
  next
    case False
    have "''0123456789'' ! (n mod 10) \<in> set ''0123456789''" by (intro nth_mem) simp
    with False 1 show ?thesis by (subst decimal.simps) simp
  qed
qed

lemma format_named:
  "gcc_python_string_from_format ''%s('%s')'' [Str a, Str b]
     = Some (a @ [CHR ''('', CHR 0x27] @ b @ [CHR 0x27, CHR '')''])"
  by simp

lemma format_anonymous:
  "gcc_python_string_from_format ''%s(%u)'' [Str a, Uint u]
     = Some (a @ ''('' @ decimal (unat u) @ '')'')"
  by simp

text \<open>
  C9, as amended. The rendering of a declaration wrapper is the name of its type followed
  by the name of the declaration in single quotes and parentheses, when the declaration
  has a name (and the name could be fetched); when the declaration has no name it is the
  name of the type followed by the uid of the declaration in decimal, in parentheses,
  with no \<open>#\<close> before the uid.
\<close>

theorem declaration_repr_format:
  "(DECL_NAME st (PyGccTree_t st self) \<noteq> 0 \<and> get_name st self = Some name \<longrightarrow>
      gcc_Declaration_repr get_name st self
        = Some (tp_name st (ob_type st self) @ [CHR ''('', CHR 0x27] @ name @ [CHR 0x27, CHR '')''])) \<and>
   (DECL_NAME st (PyGccTree_t st self) = 0 \<longrightarrow>
      gcc_Declaration_repr get_name st self
        = Some (tp_name st (ob_type st self) @ ''('' @ decimal (unat (DECL_UID st (PyGccTree_t st self))) @ '')'')
      \<and> CHR ''#'' \<notin> set (decimal (unat (DECL_UID st (PyGccTree_t st self)))))"
  using decimal_digits [of "unat (DECL_UID st (PyGccTree_t st self))"]
  by (auto simp: gcc_Declaration_repr_def format_named format_anonymous)

theorem declaration_repr_format_witness:
  "gcc_Declaration_repr (\<lambda>st self. Some ''counter'') named_decl (Obj 1) = Some ''gcc.VarDecl('counter')''
   \<and> gcc_Declaration_repr (\<lambda>st self. Some ''counter'') anonymous_decl (Obj 1) = Some ''gcc.VarDecl(42)''"
  using declaration_repr_format [of named_decl "Obj 1" "\<lambda>st self. Some ''counter''" "''counter''"]
    declaration_repr_format [of anonymous_decl "Obj 1" "\<lambda>st self. Some ''counter''" "''counter''"]
  by (simp add: named_decl_def anonymous_decl_def startup_def sentinel_init_def zeroed_def
      decimal.simps)

text \<open>
  C9, as stated, fails: for the anonymous declaration with uid 42 wrapped by a
  \<open>gcc.VarDecl\<close> the rendering is \<open>gcc.VarDecl(42)\<close>, not \<open>gcc.VarDecl(#42)\<close>.
\<close>

theorem declaration_repr_anonymous_counterexample:
  "DECL_NAME anonymous_decl (PyGccTree_t anonymous_decl (Obj 1)) = 0
   \<and> tp_name anonymous_decl (ob_type anonymous_decl (Obj 1)) = ''gcc.VarDecl''
   \<and> DECL_UID anonymous_decl (PyGccTree_t anonymous_decl (Obj 1)) = 42
   \<and> gcc_Declaration_repr (\<lambda>st self. None) anonymous_decl (Obj 1) = Some ''gcc.VarDecl(42)''
   \<and> gcc_Declaration_repr (\<lambda>st self. None) anonymous_decl (Obj 1) \<noteq> Some ''gcc.VarDecl(#42)''"
  by (simp add: gcc_Declaration_repr_def anonymous_decl_def startup_def sentinel_init_def
      zeroed_def decimal.simps)

text \<open>
  C7. Called with the null tree, \<open>real_make_tree_wrapper\<close> returns the host's \<open>None\<close>
  object. This is a normal return, not a failure; nothing is allocated, and the only
  store is the new reference to \<open>None\<close>.
\<close>

theorem real_make_tree_wrapper_null:
  "real_make_tree_wrapper type_for_tree st 0
     = Inr (Py_None, st\<lparr>ob_refcnt := (ob_refcnt st)(Py_None := ob_refcnt st Py_None + 1)\<rparr>)"
  by (simp add: real_make_tree_wrapper_def Py_INCREF_def)

text \<open>
  C4. For two tree wrappers, the comparison answers "equal" exactly when the wrapped
  addresses are equal and "not equal" exactly when they differ, and wrappers of the same
  address have the same hash, whether or not they are the same object. A comparison of a
  tree wrapper with an object that is not one never answers "equal": the answer is
  \<open>NotImplemented\<close>. The answers and the hash are the same in any memory and for any
  wrappers that hold the same addresses, so nothing but the wrapped address is read.
\<close>

theorem tree_equality_is_handle_identity:
  assumes "is_tree st p1" and "is_tree st p2"
  shows "fst (gcc_Tree_richcompare is_tree st p1 p2 Py_EQ)
           = (if PyGccTree_t st p1 = PyGccTree_t st p2 then Py_True else Py_False)
       \<and> fst (gcc_Tree_richcompare is_tree st p1 p2 Py_NE)
           = (if PyGccTree_t st p1 = PyGccTree_t st p2 then Py_False else Py_True)
       \<and> (PyGccTree_t st p1 = PyGccTree_t st p2 \<longrightarrow> gcc_Tree_hash st p1 = gcc_Tree_hash st p2)
       \<and> (\<not> is_tree st q \<longrightarrow>
            fst (gcc_Tree_richcompare is_tree st p1 q op) = Py_NotImplemented
          \<and> fst (gcc_Tree_richcompare is_tree st q p1 op) = Py_NotImplemented)
       \<and> (is_tree st' q1 \<and> is_tree st' q2 \<and> PyGccTree_t st' q1 = PyGccTree_t st p1
            \<and> PyGccTree_t st' q2 = PyGccTree_t st p2 \<longrightarrow>
            fst (gcc_Tree_richcompare is_tree st' q1 q2 op)
              = fst (gcc_Tree_richcompare is_tree st p1 p2 op)
          \<and> gcc_Tree_hash st' q1 = gcc_Tree_hash st p1)"
  using assms
  by (simp add: gcc_Tree_richcompare_def gcc_Tree_hash_def Let_def Py_EQ_def Py_NE_def)

theorem tree_equality_is_handle_identity_witness:
  "fst (gcc_Tree_richcompare (\<lambda>st p. is_Obj p) three_trees (Obj 1) (Obj 2) Py_EQ) = Py_True
   \<and> fst (gcc_Tree_richcompare (\<lambda>st p. is_Obj p) three_trees (Obj 1) (Obj 2) Py_NE) = Py_False
   \<and> gcc_Tree_hash three_trees (Obj 1) = gcc_Tree_hash three_trees (Obj 2)
   \<and> fst (gcc_Tree_richcompare (\<lambda>st p. is_Obj p) three_trees (Obj 1) (Obj 3) Py_EQ) = Py_False
   \<and> fst (gcc_Tree_richcompare (\<lambda>st p. is_Obj p) three_trees (Obj 1) Py_None Py_EQ) = Py_NotImplemented"
  using tree_equality_is_handle_identity [of "\<lambda>st p. is_Obj p" three_trees "Obj 1" "Obj 2"
        Py_None Py_EQ three_trees "Obj 1" "Obj 2"]
    tree_equality_is_handle_identity [of "\<lambda>st p. is_Obj p" three_trees "Obj 1" "Obj 3"
        Py_None Py_EQ three_trees "Obj 1" "Obj 3"]
  by (simp add: three_trees_def startup_def sentinel_init_def zeroed_def)

section \<open>The claim about forcing a collection\<close>

text \<open>
  C10. Whenever \<open>force_gcc_gc\<close> returns, \<open>ggc_force_collect\<close> has the value it had before
  the call, whatever the collector did to it; the same holds for the operation exported
  to the host, which returns \<open>None\<close>. The collector runs with the flag set, and when the
  collector returns, so does \<open>force_gcc_gc\<close>.
\<close>

theorem force_gcc_gc_restores_flag:
  "(force_gcc_gc ggc_collect st = Inr st' \<longrightarrow> ggc_force_collect st' = ggc_force_collect st) \<and>
   (gcc_python__force_garbage_collection ggc_collect st = Inr (r, st'') \<longrightarrow>
      r = Py_None \<and> ggc_force_collect st'' = ggc_force_collect st) \<and>
   (ggc_collect (st\<lparr>ggc_force_collect := True\<rparr>) = Inr st1 \<longrightarrow>
      force_gcc_gc ggc_collect st = Inr (st1\<lparr>ggc_force_collect := ggc_force_collect st\<rparr>))"
  by (auto simp: force_gcc_gc_def gcc_python__force_garbage_collection_def Py_INCREF_def Let_def
      split: sum.splits)

theorem force_gcc_gc_restores_flag_witness:
  "ggc_force_collect startup = False
   \<and> force_gcc_gc (\<lambda>s. Inr (s\<lparr>ggc_force_collect := True, host_free := [5]\<rparr>)) startup
       = Inr (startup\<lparr>host_free := [5]\<rparr>)
   \<and> ggc_force_collect (startup\<lparr>host_free := [5]\<rparr>) = False"
  using force_gcc_gc_restores_flag [of "\<lambda>s. Inr (s\<lparr>ggc_force_collect := True, host_free := [5]\<rparr>)"
      startup "startup\<lparr>host_free := [5]\<rparr>" Py_None startup
      "startup\<lparr>ggc_force_collect := True, host_free := [5]\<rparr>"]
  by (simp add: startup_def sentinel_init_def zeroed_def)


section \<open>The claims about subtypes\<close>

lemma meta_tp_new_result:
  assumes "PyType_Type_tp_new st type args = (new_type, st1)"
    and "new_type \<noteq> NULL" and "ob_type st1 new_type \<noteq> NULL"
    and "sz \<le> tp_basicsize st1 (ob_type st1 new_type)"
    and "tp_base st1 new_type \<noteq> NULL"
  shows "gcc_python_wrapper_meta_tp_new PyType_Type_tp_new sz st type args
           = Inr (new_type, st1\<lparr>wrtp_mark := (wrtp_mark st1)
                                (new_type := wrtp_mark st1 (tp_base st1 new_type))\<rparr>)"
  using assms by (simp add: gcc_python_wrapper_meta_tp_new_def)

lemma my_walker_result:
  assumes "live_list st xs" and "list_all (mark_installed st) xs"
  shows "my_walker st = Some (Inr (map (\<lambda>p. (the (wrtp_mark st (ob_type st p)), p)) xs))"
proof -
  from assms(1) have c: "chain st Sentinel xs Sentinel" and a: "list_all is_Obj xs"
    by (simp_all add: live_list_def)
  show ?thesis
    using walker_loop_chain[OF c a assms(2), of "[]"] by (simp add: my_walker_def)
qed

lemma my_walker_calls_member:
  assumes "live_list st xs" and "list_all (mark_installed st) xs"
    and "p \<in> set xs" and "wrtp_mark st (ob_type st p) = Some f"
  shows "\<exists>calls. my_walker st = Some (Inr calls) \<and> (f, p) \<in> set calls"
proof -
  let ?calls = "map (\<lambda>p. (the (wrtp_mark st (ob_type st p)), p)) xs"
  from assms(3,4) have "(f, p) \<in> set ?calls" by force
  with my_walker_result[OF assms(1,2)] show ?thesis by blast
qed

lemma my_walker_unmarked:
  assumes "live_list st xs" and "list_all (\<lambda>x. ob_type st x \<noteq> NULL) xs"
    and "p \<in> set xs" and "wrtp_mark st (ob_type st p) = None"
  shows "my_walker st = Some (Inl (Assertion_failed ''wrtp_mark''))"
proof -
  from assms(1) have c: "chain st Sentinel xs Sentinel" and a: "list_all is_Obj xs"
    by (simp_all add: live_list_def)
  from assms(3,4) have "\<not> list_all (mark_installed st) xs"
    by (auto simp: list_all_iff mark_installed_def)
  with c a assms(2) show ?thesis
    unfolding my_walker_def by (rule walker_loop_unmarked)
qed

lemmas example_defs = wrapper_types_def startup_def sentinel_init_def zeroed_def
  host_type_new_def PyObject_New_def one_instance_def

lemma host_type_new_marked:
  "host_type_new wrapper_types (Obj 0) (''MyPass'', Obj 10) =
     (Obj 20, wrapper_types\<lparr>host_free := [],
                ob_type := (ob_type wrapper_types)(Obj 20 := Obj 0),
                ob_refcnt := (ob_refcnt wrapper_types)(Obj 20 := 1),
                tp_name := (tp_name wrapper_types)(Obj 20 := ''MyPass''),
                tp_base := (tp_base wrapper_types)(Obj 20 := Obj 10),
                tp_basicsize := (tp_basicsize wrapper_types)(Obj 20 := 40),
                wrtp_mark := (wrtp_mark wrapper_types)(Obj 20 := None)\<rparr>)"
  by (simp add: example_defs)

lemma host_type_new_unmarked:
  "host_type_new wrapper_types (Obj 0) (''MyPass'', Obj 11) =
     (Obj 20, wrapper_types\<lparr>host_free := [],
                ob_type := (ob_type wrapper_types)(Obj 20 := Obj 0),
                ob_refcnt := (ob_refcnt wrapper_types)(Obj 20 := 1),
                tp_name := (tp_name wrapper_types)(Obj 20 := ''MyPass''),
                tp_base := (tp_base wrapper_types)(Obj 20 := Obj 11),
                tp_basicsize := (tp_basicsize wrapper_types)(Obj 20 := 40),
                wrtp_mark := (wrtp_mark wrapper_types)(Obj 20 := None)\<rparr>)"
  by (simp add: example_defs)

text \<open>
  C3. When the host has created the new type object, \<open>gcc_python_wrapper_meta_tp_new\<close>
  returns it with its \<open>wrtp_mark\<close> slot equal to the slot of its parent, the type that
  \<open>tp_base\<close> of the new type points to. The slot is copied once, into the new type: in
  any later memory where the slot of the new type still has that value, whatever has
  become of the parent's slot, a walk over a list of live wrappers calls the parent's
  marking function on every member whose type is the new type.
\<close>

theorem subtype_inherits_wrtp_mark:
  assumes "PyType_Type_tp_new st type args = (new_type, st1)"
    and "new_type \<noteq> NULL" and "ob_type st1 new_type \<noteq> NULL"
    and "sz \<le> tp_basicsize st1 (ob_type st1 new_type)"
    and "tp_base st1 new_type \<noteq> NULL"
  shows "\<exists>st'. gcc_python_wrapper_meta_tp_new PyType_Type_tp_new sz st type args = Inr (new_type, st')
       \<and> wrtp_mark st' new_type = wrtp_mark st' (tp_base st' new_type)
       \<and> wrtp_mark st' new_type = wrtp_mark st1 (tp_base st1 new_type)
       \<and> (\<forall>st2 xs p f. wrtp_mark st2 new_type = wrtp_mark st' new_type
             \<and> wrtp_mark st1 (tp_base st1 new_type) = Some f
             \<and> live_list st2 xs \<and> list_all (mark_installed st2) xs
             \<and> p \<in> set xs \<and> ob_type st2 p = new_type \<longrightarrow>
             (\<exists>calls. my_walker st2 = Some (Inr calls) \<and> (f, p) \<in> set calls))"
proof -
  let ?st' = "st1\<lparr>wrtp_mark := (wrtp_mark st1)(new_type := wrtp_mark st1 (tp_base st1 new_type))\<rparr>"
  have "gcc_python_wrapper_meta_tp_new PyType_Type_tp_new sz st type args = Inr (new_type, ?st')"
    using assms by (rule meta_tp_new_result)
  moreover have "wrtp_mark ?st' new_type = wrtp_mark ?st' (tp_base ?st' new_type)" by simp
  moreover have "wrtp_mark ?st' new_type = wrtp_mark st1 (tp_base st1 new_type)" by simp
  moreover have "\<forall>st2 xs p f. wrtp_mark st2 new_type = wrtp_mark ?st' new_type
             \<and> wrtp_mark st1 (tp_base st1 new_type) = Some f
             \<and> live_list st2 xs \<and> list_all (mark_installed st2) xs
             \<and> p \<in> set xs \<and> ob_type st2 p = new_type \<longrightarrow>
             (\<exists>calls. my_walker st2 = Some (Inr calls) \<and> (f, p) \<in> set calls)"
    by (auto intro!: my_walker_calls_member)
  ultimately show ?thesis by blast
qed

theorem subtype_inherits_wrtp_mark_witness:
  "wrtp_mark wrapper_types (Obj 10) = Some 7
   \<and> (\<exists>st'. gcc_python_wrapper_meta_tp_new host_type_new 100 wrapper_types (Obj 0)
               (''MyPass'', Obj 10) = Inr (Obj 20, st')
          \<and> wrtp_mark st' (Obj 20) = Some 7
          \<and> (\<exists>calls. my_walker (one_instance (st'\<lparr>wrtp_mark := (wrtp_mark st')(Obj 10 := None)\<rparr>))
                         = Some (Inr calls) \<and> (7, Obj 30) \<in> set calls))"
proof -
  define st1 where "st1 = snd (host_type_new wrapper_types (Obj 0) (''MyPass'', Obj 10))"
  have h: "host_type_new wrapper_types (Obj 0) (''MyPass'', Obj 10) = (Obj 20, st1)"
    by (simp add: st1_def host_type_new_marked)
  have a: "Obj 20 \<noteq> NULL" "ob_type st1 (Obj 20) \<noteq> NULL"
    "100 \<le> tp_basicsize st1 (ob_type st1 (Obj 20))" "tp_base st1 (Obj 20) \<noteq> NULL"
    by (simp_all add: st1_def host_type_new_marked) (simp_all add: example_defs)
  have b: "wrtp_mark st1 (tp_base st1 (Obj 20)) = Some 7"
    by (simp add: st1_def host_type_new_marked) (simp add: example_defs)
  from subtype_inherits_wrtp_mark [of host_type_new wrapper_types "Obj 0" "(''MyPass'', Obj 10)"
      "Obj 20" st1 100, OF h a]
  obtain st' where r: "gcc_python_wrapper_meta_tp_new host_type_new 100 wrapper_types (Obj 0)
               (''MyPass'', Obj 10) = Inr (Obj 20, st')"
    and m: "wrtp_mark st' (Obj 20) = wrtp_mark st1 (tp_base st1 (Obj 20))"
    and w: "\<forall>st2 xs p f. wrtp_mark st2 (Obj 20) = wrtp_mark st' (Obj 20)
             \<and> wrtp_mark st1 (tp_base st1 (Obj 20)) = Some f
             \<and> live_list st2 xs \<and> list_all (mark_installed st2) xs
             \<and> p \<in> set xs \<and> ob_type st2 p = Obj 20 \<longrightarrow>
             (\<exists>calls. my_walker st2 = Some (Inr calls) \<and> (f, p) \<in> set calls)"
    by (elim exE conjE)
  from m b have m7: "wrtp_mark st' (Obj 20) = Some 7" by simp
  define st2 where "st2 = one_instance (st'\<lparr>wrtp_mark := (wrtp_mark st')(Obj 10 := None)\<rparr>)"
  have c: "wrtp_mark st2 (Obj 20) = wrtp_mark st' (Obj 20)"
    "live_list st2 [Obj 30]" "list_all (mark_installed st2) [Obj 30]"
    "Obj 30 \<in> set [Obj 30]" "ob_type st2 (Obj 30) = Obj 20"
    using m7 by (simp_all add: st2_def one_instance_def live_list_def mark_installed_def)
  from w [rule_format, of st2 7 "[Obj 30]" "Obj 30"] c b
  have "\<exists>calls. my_walker st2 = Some (Inr calls) \<and> (7, Obj 30) \<in> set calls" by simp
  moreover have "wrtp_mark wrapper_types (Obj 10) = Some 7" by (simp add: example_defs)
  ultimately show ?thesis using r m7 unfolding st2_def by (intro conjI exI[of _ st']) 
qed

text \<open>
  C8, as amended. A subtype of a parent with no marking function is created all the same,
  with no marking function of its own: creation asserts on the size of the type object
  only. The assertion on the marking function is in the mark-phase callback: a walk over
  a list of live wrappers that holds a wrapper whose type has no marking function stops
  at the assertion \<open>wrtp_mark\<close>.
\<close>

theorem unmarked_type_fails_at_walk:
  "(PyType_Type_tp_new st type args = (new_type, st1)
      \<and> new_type \<noteq> NULL \<and> ob_type st1 new_type \<noteq> NULL
      \<and> sz \<le> tp_basicsize st1 (ob_type st1 new_type)
      \<and> tp_base st1 new_type \<noteq> NULL
      \<and> wrtp_mark st1 (tp_base st1 new_type) = None \<longrightarrow>
      (\<exists>st'. gcc_python_wrapper_meta_tp_new PyType_Type_tp_new sz st type args = Inr (new_type, st')
            \<and> wrtp_mark st' new_type = None)) \<and>
   (live_list st2 xs \<and> list_all (\<lambda>x. ob_type st2 x \<noteq> NULL) xs
      \<and> p \<in> set xs \<and> wrtp_mark st2 (ob_type st2 p) = None \<longrightarrow>
      my_walker st2 = Some (Inl (Assertion_failed ''wrtp_mark'')))"
  by (auto simp: meta_tp_new_result intro: my_walker_unmarked)

theorem unmarked_type_fails_at_walk_witness:
  "\<exists>st'. gcc_python_wrapper_meta_tp_new host_type_new 100 wrapper_types (Obj 0)
              (''MyPass'', Obj 11) = Inr (Obj 20, st')
          \<and> wrtp_mark st' (Obj 20) = None
          \<and> my_walker (one_instance st') = Some (Inl (Assertion_failed ''wrtp_mark''))"
proof -
  define st1 where "st1 = snd (host_type_new wrapper_types (Obj 0) (''MyPass'', Obj 11))"
  have h: "host_type_new wrapper_types (Obj 0) (''MyPass'', Obj 11) = (Obj 20, st1)"
    by (simp add: st1_def host_type_new_unmarked)
  have a: "Obj 20 \<noteq> NULL" "ob_type st1 (Obj 20) \<noteq> NULL"
    "100 \<le> tp_basicsize st1 (ob_type st1 (Obj 20))" "tp_base st1 (Obj 20) \<noteq> NULL"
    "wrtp_mark st1 (tp_base st1 (Obj 20)) = None"
    by (simp_all add: st1_def host_type_new_unmarked) (simp_all add: example_defs)
  from unmarked_type_fails_at_walk [of host_type_new wrapper_types "Obj 0" "(''MyPass'', Obj 11)"
        "Obj 20" st1 100 st1 "[]" NULL] h a
  obtain st' where r: "gcc_python_wrapper_meta_tp_new host_type_new 100 wrapper_types (Obj 0)
              (''MyPass'', Obj 11) = Inr (Obj 20, st')"
    and m: "wrtp_mark st' (Obj 20) = None"
    by blast
  define st2 where "st2 = one_instance st'"
  have l: "live_list st2 [Obj 30]"
    "list_all (\<lambda>x. ob_type st2 x \<noteq> NULL) [Obj 30]"
    "Obj 30 \<in> set [Obj 30]"
    "wrtp_mark st2 (ob_type st2 (Obj 30)) = None"
    using m by (simp_all add: st2_def live_list_def one_instance_def)
  have "my_walker st2 = Some (Inl (Assertion_failed ''wrtp_mark''))"
    using unmarked_type_fails_at_walk [of host_type_new wrapper_types "Obj 0" "(''MyPass'', Obj 11)"
        "Obj 20" st1 100 st2 "[Obj 30]" "Obj 30"] l
    by simp
  with r m show ?thesis unfolding st2_def by (intro exI[of _ st'] conjI)
qed

text \<open>
  C8, as stated, fails: creating the subtype \<open>MyPass\<close> of the type at \<open>Obj 11\<close>, which
  has no marking function, returns the new type object at \<open>Obj 20\<close>, whose \<open>wrtp_mark\<close>
  slot is null. No assertion fails.
\<close>

theorem subtype_of_unmarked_parent_counterexample:
  "wrtp_mark wrapper_types (Obj 11) = None
   \<and> map_sum id fst (gcc_python_wrapper_meta_tp_new host_type_new 100 wrapper_types (Obj 0)
        (''MyPass'', Obj 11)) = Inr (Obj 20)
   \<and> tp_base (snd (projr (gcc_python_wrapper_meta_tp_new host_type_new 100 wrapper_types (Obj 0)
        (''MyPass'', Obj 11)))) (Obj 20) = Obj 11
   \<and> wrtp_mark (snd (projr (gcc_python_wrapper_meta_tp_new host_type_new 100 wrapper_types (Obj 0)
        (''MyPass'', Obj 11)))) (Obj 20) = None"
  by (simp add: gcc_python_wrapper_meta_tp_new_def host_type_new_unmarked)
     (simp add: example_defs)


section \<open>The claim about the cached constructor\<close>

lemma ctor_keeps_cache:
  "real_make_tree_wrapper tft st t = Inr (q, st1) \<Longrightarrow>
     tree_wrapper_cache st1 = tree_wrapper_cache st"
  by (auto simp: real_make_tree_wrapper_def PyObject_New_def Py_INCREF_def Let_def
      split: if_splits list.splits)

lemma cache_hit:
  "tree_wrapper_cache st t = Some p \<Longrightarrow> t \<noteq> 0 \<Longrightarrow>
     gcc_python_make_wrapper_tree tft st t = Inr (p, Py_INCREF st p)"
  by (simp add: gcc_python_make_wrapper_tree_def gcc_python_lazily_create_wrapper_def)

lemma cache_kept:
  assumes "gcc_python_make_wrapper_tree tft st u = Inr (q, st1)"
    and "tree_wrapper_cache st t = Some p"
  shows "tree_wrapper_cache st1 t = Some p"
proof (cases "u = 0 \<or> tree_wrapper_cache st u \<noteq> None")
  case True
  with assms show ?thesis
    by (auto simp: gcc_python_make_wrapper_tree_def gcc_python_lazily_create_wrapper_def
        Py_INCREF_def split: if_splits)
next
  case False
  then have u: "u \<noteq> 0" "tree_wrapper_cache st u = None" by simp_all
  with assms(2) have ut: "u \<noteq> t" by auto
  from assms(1) u obtain st0 where c: "real_make_tree_wrapper tft st u = Inr (q, st0)"
    and s: "st1 = (if q = NULL then st0
                   else st0\<lparr>tree_wrapper_cache := (tree_wrapper_cache st0)(u \<mapsto> q)\<rparr>)"
    by (auto simp: gcc_python_make_wrapper_tree_def gcc_python_lazily_create_wrapper_def
        split: sum.splits if_splits)
  from ctor_keeps_cache[OF c] s ut assms(2) show ?thesis by simp
qed

lemma cache_stored:
  assumes "gcc_python_make_wrapper_tree tft st t = Inr (p, st1)" and "t \<noteq> 0" and "p \<noteq> NULL"
  shows "tree_wrapper_cache st1 t = Some p"
  using assms
  by (auto simp: gcc_python_make_wrapper_tree_def gcc_python_lazily_create_wrapper_def
      Py_INCREF_def split: option.splits sum.splits if_splits)

lemma make_wrapper_trees_length:
  "make_wrapper_trees tft st ts = Inr (ps, st') \<Longrightarrow> length ps = length ts"
  by (induction ts arbitrary: st ps) (auto split: sum.splits)

lemma make_wrapper_trees_hits:
  assumes "make_wrapper_trees tft st ts = Inr (ps, st')"
    and "tree_wrapper_cache st t = Some p" and "t \<noteq> 0"
    and "j < length ts" and "ts ! j = t"
  shows "ps ! j = p"
  using assms
proof (induction ts arbitrary: st ps j)
  case Nil
  then show ?case by simp
next
  case (Cons u us)
  from Cons.prems(1) obtain q st1 qs
    where f: "gcc_python_make_wrapper_tree tft st u = Inr (q, st1)"
      and r: "make_wrapper_trees tft st1 us = Inr (qs, st')" and ps: "ps = q # qs"
    by (auto split: sum.splits)
  show ?case
  proof (cases j)
    case 0
    with Cons.prems have "u = t" by simp
    with f cache_hit[OF Cons.prems(2,3), of tft] have "q = p" by simp
    with 0 ps show ?thesis by simp
  next
    case (Suc k)
    from cache_kept[OF f Cons.prems(2)] have "tree_wrapper_cache st1 t = Some p" .
    with r Cons.prems Suc have "qs ! k = p" by (intro Cons.IH[of st1 qs k]) simp_all
    with Suc ps show ?thesis by simp
  qed
qed

lemma make_wrapper_trees_same:
  assumes "make_wrapper_trees tft st ts = Inr (ps, st')"
    and "i < j" and "j < length ts" and "ts ! i = ts ! j" and "ts ! i \<noteq> 0" and "ps ! i \<noteq> NULL"
  shows "ps ! j = ps ! i"
  using assms
proof (induction ts arbitrary: st ps i j)
  case Nil
  then show ?case by simp
next
  case (Cons u us)
  from Cons.prems(1) obtain q st1 qs
    where f: "gcc_python_make_wrapper_tree tft st u = Inr (q, st1)"
      and r: "make_wrapper_trees tft st1 us = Inr (qs, st')" and ps: "ps = q # qs"
    by (auto split: sum.splits)
  from Cons.prems(2) obtain k where j: "j = Suc k" by (cases j) auto
  show ?case
  proof (cases i)
    case 0
    with Cons.prems ps have u: "u \<noteq> 0" "q \<noteq> NULL" "us ! k = u" "k < length us"
      using j by simp_all
    from cache_stored[OF f u(1,2)] have "tree_wrapper_cache st1 u = Some q" .
    from make_wrapper_trees_hits[OF r this u(1) u(4) u(3)] have "qs ! k = q" .
    with 0 j ps show ?thesis by simp
  next
    case (Suc l)
    with Cons.prems j ps have "qs ! k = qs ! l"
      by (intro Cons.IH[OF r]) simp_all
    with Suc j ps show ?thesis by simp
  qed
qed

lemma make_wrapper_trees_example:
  "map_sum id fst (make_wrapper_trees (\<lambda>st t. Obj 10) two_free [4096, 8192, 4096])
     = Inr [Obj 1, Obj 2, Obj 1]"
  by (simp add: gcc_python_make_wrapper_tree_def gcc_python_lazily_create_wrapper_def
      real_make_tree_wrapper_def PyObject_New_def Py_INCREF_def Let_def
      two_free_def startup_def sentinel_init_def zeroed_def)

text \<open>
  C2. For a tree that is not null, the cached constructor returns the wrapper that the
  cache holds for it, with one more reference and without allocating; a call that
  returned a wrapper is followed by calls that return the same wrapper; and in any
  sequence of calls, two calls for the same tree return the same pointer once the
  earlier of them has returned a wrapper.
\<close>

theorem cached_constructor_returns_same_proxy:
  "(t \<noteq> 0 \<and> tree_wrapper_cache st t = Some p \<longrightarrow>
      gcc_python_make_wrapper_tree type_for_tree st t = Inr (p, Py_INCREF st p)) \<and>
   (t \<noteq> 0 \<and> p \<noteq> NULL \<and> gcc_python_make_wrapper_tree type_for_tree st t = Inr (p, st1) \<longrightarrow>
      gcc_python_make_wrapper_tree type_for_tree st1 t = Inr (p, Py_INCREF st1 p)) \<and>
   (make_wrapper_trees type_for_tree st ts = Inr (ps, st') \<and> i < j \<and> j < length ts
      \<and> ts ! i = ts ! j \<and> ts ! i \<noteq> 0 \<and> ps ! i \<noteq> NULL \<longrightarrow>
      ps ! j = ps ! i)"
  using cache_hit cache_stored make_wrapper_trees_same by blast

theorem cached_constructor_returns_same_proxy_witness:
  "\<exists>ps st'. make_wrapper_trees (\<lambda>st t. Obj 10) two_free [4096, 8192, 4096] = Inr (ps, st')
      \<and> ps ! 0 = Obj 1 \<and> ps ! 2 = ps ! 0"
proof -
  from make_wrapper_trees_example obtain ps st'
    where r: "make_wrapper_trees (\<lambda>st t. Obj 10) two_free [4096, 8192, 4096] = Inr (ps, st')"
      and p: "ps = [Obj 1, Obj 2, Obj 1]"
    by (cases "make_wrapper_trees (\<lambda>st t. Obj 10) two_free [4096, 8192, 4096]") auto
  from p have n: "ps ! 0 \<noteq> NULL" by simp
  have "ps ! 2 = ps ! 0"
    using cached_constructor_returns_same_proxy
      [of 0 two_free NULL "\<lambda>st t. Obj 10" two_free "[4096, 8192, 4096]" ps st' 0 2] r n
    by simp
  with r p show ?thesis by simp
qed

end
